theory Spec2Isabelle
  imports Main "HOL-Library.Word"
begin

section \<open>Data model of the p2p host (apps/broker/internal/networking/host.go)\<close>

text \<open>
  Peer identities (\<open>peer.ID\<close> is a Go string type), multiaddresses and configured
  entries are strings. A \<open>time.Time\<close> is the number of nanoseconds since Go's zero
  instant, so \<open>IsZero\<close> is equality with 0. An error value is either created with
  \<open>errors.New\<close> (or comes from a collaborator) or wraps another error with a message
  (\<open>errors.Wrap\<close>, \<open>errors.Wrapf\<close>).
\<close>

type_synonym peer_id = string
type_synonym multiaddr = string
type_synonym time = int
type_synonym listener = nat

datatype err = Err string | Wrap err string

definition IsZero :: "time \<Rightarrow> bool" where
  "IsZero t = (t = 0)"

text \<open>\<open>peer.AddrInfo\<close>.\<close>

record addr_info =
  ID :: peer_id
  Addrs :: "multiaddr list"

text \<open>
  How a call ends: it returns, the process exits (a fatal log entry with the logger's
  default exit function), a run-time panic, or the call blocks for ever.
\<close>

datatype 'a outcome = Returned 'a | Exited | Panicked | Blocked

text \<open>
  The peer store of the Reputation collaborator (\<open>peers.Status\<close>), as far as this file
  talks to it: the bad-response score of each peer, the trusted peers, and the peers
  added with \<open>Add\<close>.
\<close>

record peer_status =
  badResponses :: "peer_id \<Rightarrow> nat"
  trustedPeers :: "peer_id list"
  added :: "(peer_id \<times> multiaddr) list"

text \<open>
  Modelled from the spec: the bad-responses scorer is not part of this file;
  \<open>Increment(id)\<close> raises the bad-response count of that peer by one.
\<close>

definition Increment :: "peer_status \<Rightarrow> peer_id \<Rightarrow> peer_status" where
  "Increment st pid = st\<lparr>badResponses := (badResponses st)(pid := badResponses st pid + 1)\<rparr>"

text \<open>
  Modelled from the spec: \<open>SetTrustedPeers(ids)\<close> registers the identities in the trust
  set, \<open>Add\<close> records a peer with its address in the store.
\<close>

definition SetTrustedPeers :: "peer_status \<Rightarrow> peer_id list \<Rightarrow> peer_status" where
  "SetTrustedPeers st pids = st\<lparr>trustedPeers := trustedPeers st @ pids\<rparr>"

definition peersAdd :: "peer_status \<Rightarrow> peer_id \<Rightarrow> multiaddr \<Rightarrow> peer_status" where
  "peersAdd st pid a = st\<lparr>added := added st @ [(pid, a)]\<rparr>"

definition emptyStatus :: peer_status where
  "emptyStatus = \<lparr>badResponses = (\<lambda>_. 0), trustedPeers = [], added = []\<rparr>"

text \<open>
  Modelled from the spec: the code of the peer store's \<open>IsBad\<close> is not part of this
  file. By the spec a trusted peer is exempt from reputation-based connection refusal:
  the store reports no trusted peer as bad, and asks its scorers about any other peer.
\<close>

definition storeIsBad ::
  "(peer_status \<Rightarrow> peer_id \<Rightarrow> err option) \<Rightarrow> peer_status \<Rightarrow> peer_id \<Rightarrow> err option" where
  "storeIsBad scorers st pid = (if pid \<in> set (trustedPeers st) then None else scorers st pid)"

text \<open>The fields of \<open>Config\<close> that \<open>Start\<close> branches on (the others are only logged).\<close>

record Config =
  RelayNodeAddr :: string
  NoDiscovery :: bool
  Discv5BootStrapAddrs :: "string list"
  StaticPeers :: "string list"

text \<open>What \<open>WaitForClock\<close> does: it yields the clock, fails, or never returns.\<close>

datatype clock_result = ClockReady time "8 word list" | ClockFailed err | ClockNever

text \<open>Goroutines started with \<open>go\<close>, and the periodic tasks given to \<open>async.RunEvery\<close>.\<close>

datatype goroutine = ListenForNewNodes | DialPeer addr_info | ForkWatcher

datatype interval = TtfbTimeout | RespTimeout | RefreshRate | Minutes nat

datatype action =
  EnsurePeerConnections "string list" | Prune | UpdateMetrics
  | RefreshPersistentSubnets | LogConnectedPeers

text \<open>
  The service. The first eight fields are fields of the Go struct; \<open>peers\<close> is a
  pointer to the peer store, \<open>None\<close> when it is nil. The others record the effects
  of the methods on the world: whether \<open>cancel\<close> was called, the listeners closed,
  the number of waits on the clock, the relay addresses dialed, the calls of the
  transport's \<open>Connect\<close>, the goroutines started, the periodic tasks registered, the
  number of immediate subnet refreshes, and whether a panic in a goroutine has ended
  the process.
\<close>

record Service =
  started :: bool
  isPreGenesis :: bool
  cfg :: Config
  genesisTime :: time
  genesisValidatorsRoot :: "8 word list"
  startupErr :: "err option"
  dv5Listener :: "listener option"
  peers :: "peer_status option"
  cancelled :: bool
  closedListeners :: "listener list"
  clockWaits :: nat
  relayDials :: "string list"
  connectCalls :: "addr_info list"
  spawned :: "goroutine list"
  periodic :: "(interval \<times> action) list"
  subnetRefreshes :: nat
  crashed :: bool

text \<open>
  The collaborators, whose code is outside this file, as parameters: the local
  identity \<open>s.host.ID()\<close>; the transport's \<open>Connect\<close> (its answer may depend on the
  earlier calls); the peer store's \<open>IsBad\<close>; \<open>enode.Parse\<close>; loading the \<open>tcp\<close> entry
  of a node record (\<open>None\<close> when it is present); \<open>convertToMultiAddr\<close>;
  \<open>peer.AddrInfosFromP2pAddrs\<close>; \<open>PeersFromStringAddrs\<close> (the addresses it returns
  beside its error); \<open>peerIdsFromMultiAddrs\<close>; the clock waiter; \<open>startDiscoveryV5\<close>;
  and whether the logger's \<open>Fatal\<close> ends the process (logrus calls
  its exit function, \<open>os.Exit\<close> unless replaced).
\<close>

record 'n collab =
  hostID :: peer_id
  hostConnect :: "addr_info list \<Rightarrow> addr_info \<Rightarrow> err option"
  IsBad :: "peer_status \<Rightarrow> peer_id \<Rightarrow> err option"
  enodeParse :: "string \<Rightarrow> err + 'n"
  loadTCP :: "'n \<Rightarrow> err option"
  convertToMultiAddr :: "'n list \<Rightarrow> multiaddr list"
  AddrInfosFromP2pAddrs :: "multiaddr list \<Rightarrow> err + addr_info list"
  PeersFromStringAddrs :: "string list \<Rightarrow> multiaddr list \<times> err option"
  peerIdsFromMultiAddrs :: "multiaddr list \<Rightarrow> peer_id list"
  WaitForClock :: clock_result
  startDiscoveryV5 :: "err + listener"
  exitOnFatal :: bool

section \<open>Construction\<close>

text \<open>
  \<open>NewHost\<close>: the results of the fallible construction steps are parameters. The new
  service has \<open>isPreGenesis\<close> set and every other field of the model at its zero
  value. In particular the constructor does not assign the peer store: \<open>peers\<close> is
  nil in the service it returns.
\<close>

record construction =
  privKeyErr :: "err option"
  metaDataErr :: "err option"
  addrFilterErr :: "err option"
  buildOptionsErr :: "err option"
  libp2pNewErr :: "err option"

definition newService :: "Config \<Rightarrow> Service" where
  "newService c =
     \<lparr>started = False, isPreGenesis = True, cfg = c, genesisTime = 0,
      genesisValidatorsRoot = [], startupErr = None, dv5Listener = None,
      peers = None, cancelled = False, closedListeners = [], clockWaits = 0,
      relayDials = [], connectCalls = [], spawned = [], periodic = [],
      subnetRefreshes = 0, crashed = False\<rparr>"

text \<open>A constructed service to which an empty peer store has been given.\<close>

definition storedService :: "Config \<Rightarrow> Service" where
  "storedService c = (newService c)\<lparr>peers := Some emptyStatus\<rparr>"

definition NewHost :: "construction \<Rightarrow> Config \<Rightarrow> err + Service" where
  "NewHost k c =
     (case privKeyErr k of
        Some e \<Rightarrow> Inl (Wrap e ''failed to generate p2p private key'')
      | None \<Rightarrow>
     (case metaDataErr k of
        Some e \<Rightarrow> Inl e
      | None \<Rightarrow>
     (case addrFilterErr k of
        Some e \<Rightarrow> Inl e
      | None \<Rightarrow>
     (case buildOptionsErr k of
        Some e \<Rightarrow> Inl (Wrap e ''failed to build p2p options'')
      | None \<Rightarrow>
     (case libp2pNewErr k of
        Some e \<Rightarrow> Inl (Wrap e ''failed to create p2p host'')
      | None \<Rightarrow> Inr (newService c))))))"

section \<open>Status, Stop and the genesis gate\<close>

definition Status :: "Service \<Rightarrow> err option" where
  "Status s =
     (if isPreGenesis s then None
      else if \<not> started s then Some (Err ''not running'')
      else if startupErr s \<noteq> None then startupErr s
      else if IsZero (genesisTime s) then Some (Err ''no genesis time set'')
      else None)"

text \<open>\<open>Stop\<close> always returns nil; the deferred \<open>cancel\<close> runs last.\<close>

definition Stop :: "Service \<Rightarrow> err option \<times> Service" where
  "Stop s =
     (let s1 = s\<lparr>started := False\<rparr>;
          s2 = (case dv5Listener s1 of
                  Some l \<Rightarrow> s1\<lparr>closedListeners := closedListeners s1 @ [l]\<rparr>
                | None \<Rightarrow> s1)
      in (None, s2\<lparr>cancelled := True\<rparr>))"

definition isInitialized :: "Service \<Rightarrow> bool" where
  "isInitialized s = (\<not> IsZero (genesisTime s) \<and> length (genesisValidatorsRoot s) = 32)"

text \<open>
  \<open>awaitStateInitialized\<close>. When the clock waiter fails the failure is logged with
  \<open>Fatal\<close>; if that does not end the process, the method goes on to call a method of
  the clock it did not receive. A failure of \<open>currentForkDigest\<close> is only logged.
\<close>

definition awaitStateInitialized :: "'n collab \<Rightarrow> Service \<Rightarrow> Service outcome" where
  "awaitStateInitialized env s =
     (if isInitialized s then Returned s
      else
        (let s1 = s\<lparr>clockWaits := clockWaits s + 1\<rparr> in
         case WaitForClock env of
           ClockNever \<Rightarrow> Blocked
         | ClockFailed e \<Rightarrow> (if exitOnFatal env then Exited else Panicked)
         | ClockReady t gvr \<Rightarrow>
             Returned (s1\<lparr>genesisTime := t, genesisValidatorsRoot := gvr\<rparr>)))"

section \<open>Dialing peers\<close>

text \<open>
  \<open>connectWithPeer\<close>. The check for the local identity comes first. The next
  statement calls \<open>IsBad\<close> on the peer store, which panics when the store is nil.
\<close>

definition connectWithPeer ::
  "'n collab \<Rightarrow> Service \<Rightarrow> addr_info \<Rightarrow> (err option \<times> Service) outcome" where
  "connectWithPeer env s info =
     (if ID info = hostID env then Returned (None, s)
      else
        (case peers s of
           None \<Rightarrow> Panicked
         | Some st \<Rightarrow>
             (case IsBad env st (ID info) of
                Some e \<Rightarrow> Returned (Some (Wrap e ''refused to connect to bad peer''), s)
              | None \<Rightarrow>
                  (let s1 = s\<lparr>connectCalls := connectCalls s @ [info]\<rparr> in
                   case hostConnect env (connectCalls s) info of
                     Some e \<Rightarrow>
                       Returned (Some e, s1\<lparr>peers := Some (Increment st (ID info))\<rparr>)
                   | None \<Rightarrow> Returned (None, s1)))))"

text \<open>
  The body of the goroutine that both batch functions start for an address: it calls
  \<open>connectWithPeer\<close> and only logs its error; a panic in it ends the process.
  \<open>runDials\<close> runs the bodies one after the other, in the order of the list (one of
  the schedules the runtime may choose), as long as the process lives.
\<close>

definition dialBody :: "'n collab \<Rightarrow> Service \<Rightarrow> addr_info \<Rightarrow> Service" where
  "dialBody env s info =
     (case connectWithPeer env s info of
        Returned (e, s') \<Rightarrow> s'
      | Exited \<Rightarrow> s\<lparr>crashed := True\<rparr>
      | Panicked \<Rightarrow> s\<lparr>crashed := True\<rparr>
      | Blocked \<Rightarrow> s)"

fun runDials :: "'n collab \<Rightarrow> Service \<Rightarrow> addr_info list \<Rightarrow> Service" where
  "runDials env s [] = s"
| "runDials env s (info # rest) =
     (if crashed s then s else runDials env (dialBody env s info) rest)"

definition connectWithAllPeers :: "'n collab \<Rightarrow> Service \<Rightarrow> multiaddr list \<Rightarrow> Service" where
  "connectWithAllPeers env s multiAddrs =
     (case AddrInfosFromP2pAddrs env multiAddrs of
        Inl e \<Rightarrow> s
      | Inr addrInfos \<Rightarrow> s\<lparr>spawned := spawned s @ map DialPeer addrInfos\<rparr>)"

text \<open>
  The loop of \<open>connectWithAllTrustedPeers\<close>: each peer is added to the store with its
  first address, then its dial is started. \<open>info.Addrs[0]\<close> panics when there is no
  address, and so does \<open>Add\<close> on a nil store.
\<close>

fun trustedLoop :: "Service \<Rightarrow> addr_info list \<Rightarrow> Service outcome" where
  "trustedLoop s [] = Returned s"
| "trustedLoop s (info # rest) =
     (case Addrs info of
        [] \<Rightarrow> Panicked
      | a # _ \<Rightarrow>
          (case peers s of
             None \<Rightarrow> Panicked
           | Some st \<Rightarrow>
               trustedLoop
                 (s\<lparr>peers := Some (peersAdd st (ID info) a),
                    spawned := spawned s @ [DialPeer info]\<rparr>) rest))"

definition connectWithAllTrustedPeers ::
  "'n collab \<Rightarrow> Service \<Rightarrow> multiaddr list \<Rightarrow> Service outcome" where
  "connectWithAllTrustedPeers env s multiAddrs =
     (case AddrInfosFromP2pAddrs env multiAddrs of
        Inl e \<Rightarrow> Returned s
      | Inr addrInfos \<Rightarrow> trustedLoop s addrInfos)"

text \<open>
  The loop of \<open>connectToBootnodes\<close> over the configured entries, with the nodes
  collected so far: a parse error is returned, a node whose record has no \<open>tcp\<close> entry
  is passed over (\<open>continue\<close>), any other node is appended.
\<close>

fun bootLoop :: "'n collab \<Rightarrow> string list \<Rightarrow> 'n list \<Rightarrow> err + 'n list" where
  "bootLoop env [] nodes = Inr nodes"
| "bootLoop env (addr # rest) nodes =
     (case enodeParse env addr of
        Inl e \<Rightarrow> Inl e
      | Inr bootNode \<Rightarrow>
          (case loadTCP env bootNode of
             Some e \<Rightarrow> bootLoop env rest nodes
           | None \<Rightarrow> bootLoop env rest (nodes @ [bootNode])))"

definition connectToBootnodes :: "'n collab \<Rightarrow> Service \<Rightarrow> err option \<times> Service" where
  "connectToBootnodes env s =
     (case bootLoop env (Discv5BootStrapAddrs (cfg s)) [] of
        Inl e \<Rightarrow> (Some e, s)
      | Inr nodes \<Rightarrow> (None, connectWithAllPeers env s (convertToMultiAddr env nodes)))"

section \<open>Start\<close>

text \<open>
  The optional relay node: its address is kept for the leveling task and dialed; an
  error of \<open>dialRelayNode\<close> is only logged.
\<close>

definition relayPhase :: "Service \<Rightarrow> string list \<times> Service" where
  "relayPhase s =
     (if RelayNodeAddr (cfg s) \<noteq> []
      then ([RelayNodeAddr (cfg s)], s\<lparr>relayDials := relayDials s @ [RelayNodeAddr (cfg s)]\<rparr>)
      else ([], s))"

text \<open>
  The discovery block of \<open>Start\<close>. \<open>Inl\<close> is the way \<open>Start\<close> ends inside the block,
  \<open>Inr\<close> the service with which it goes on. The failure of \<open>startDiscoveryV5\<close> is
  logged with \<open>Fatal\<close> before \<open>startupErr\<close> is assigned; the failure of
  \<open>connectToBootnodes\<close> is logged with \<open>Error\<close>.
\<close>

definition discoveryPhase :: "'n collab \<Rightarrow> Service \<Rightarrow> Service outcome + Service" where
  "discoveryPhase env s =
     (if \<not> NoDiscovery (cfg s) then
        (case startDiscoveryV5 env of
           Inl e \<Rightarrow>
             Inl (if exitOnFatal env then Exited else Returned (s\<lparr>startupErr := Some e\<rparr>))
         | Inr l \<Rightarrow>
             (case connectToBootnodes env s of
                (Some e, s1) \<Rightarrow> Inl (Returned (s1\<lparr>startupErr := Some e\<rparr>))
              | (None, s1) \<Rightarrow>
                  Inr (s1\<lparr>dv5Listener := Some l,
                          spawned := spawned s1 @ [ListenForNewNodes]\<rparr>)))
      else Inr s)"

text \<open>
  The static peers: they are registered as trusted in the peer store (a panic when the
  store is nil) and then dialed.
\<close>

definition staticPeersPhase :: "'n collab \<Rightarrow> Service \<Rightarrow> Service outcome" where
  "staticPeersPhase env s =
     (if StaticPeers (cfg s) \<noteq> [] then
        (let addrs = fst (PeersFromStringAddrs env (StaticPeers (cfg s)));
             pids = peerIdsFromMultiAddrs env addrs
         in case peers s of
              None \<Rightarrow> Panicked
            | Some st \<Rightarrow>
                connectWithAllTrustedPeers env
                  (s\<lparr>peers := Some (SetTrustedPeers st pids)\<rparr>) addrs)
      else Returned s)"

definition registerPeriodic :: "string list \<Rightarrow> Service \<Rightarrow> Service" where
  "registerPeriodic relayNodes s =
     s\<lparr>periodic := periodic s @
        [(TtfbTimeout, EnsurePeerConnections relayNodes),
         (Minutes 30, Prune),
         (RespTimeout, UpdateMetrics),
         (RefreshRate, RefreshPersistentSubnets),
         (Minutes 1, LogConnectedPeers)]\<rparr>"

definition Start :: "'n collab \<Rightarrow> Service \<Rightarrow> Service outcome" where
  "Start env s =
     (if started s then Returned s
      else
        (case awaitStateInitialized env s of
           Returned s1 \<Rightarrow>
             (case relayPhase (s1\<lparr>isPreGenesis := False\<rparr>) of
                (relayNodes, s2) \<Rightarrow>
                  (case discoveryPhase env s2 of
                     Inl out \<Rightarrow> out
                   | Inr s3 \<Rightarrow>
                       (case staticPeersPhase env (s3\<lparr>started := True\<rparr>) of
                          Returned s4 \<Rightarrow>
                            (let s5 = s4\<lparr>subnetRefreshes := subnetRefreshes s4 + 1\<rparr>;
                                 s6 = registerPeriodic relayNodes s5
                             in Returned (s6\<lparr>spawned := spawned s6 @ [ForkWatcher]\<rparr>))
                        | Exited \<Rightarrow> Exited
                        | Panicked \<Rightarrow> Panicked
                        | Blocked \<Rightarrow> Blocked)))
         | Exited \<Rightarrow> Exited
         | Panicked \<Rightarrow> Panicked
         | Blocked \<Rightarrow> Blocked))"

section \<open>Auxiliary notions and example configurations\<close>

text \<open>Two services agree on the fields that decide the health status and on the tasks.\<close>

definition sameLifecycle :: "Service \<Rightarrow> Service \<Rightarrow> bool" where
  "sameLifecycle s s' =
     (started s' = started s \<and> isPreGenesis s' = isPreGenesis s \<and>
      startupErr s' = startupErr s \<and> periodic s' = periodic s)"

text \<open>The scorers of the example world: a peer counts as bad from six bad responses on.\<close>

definition demoScorers :: "peer_status \<Rightarrow> peer_id \<Rightarrow> err option" where
  "demoScorers st p = (if 6 \<le> badResponses st p then Some (Err ''bad responses'') else None)"

text \<open>
  An example world: three bootstrap records parse (the second has no \<open>tcp\<close> entry),
  the peer \<open>down\<close> cannot be reached, the peer store exempts trusted peers and asks the
  scorers about the others, the clock is ready and discovery starts.
\<close>

definition demoEnv :: "nat collab" where
  "demoEnv =
     \<lparr>hostID = ''self'',
      hostConnect = (\<lambda>calls info. if ID info = ''down'' then Some (Err ''dial failed'') else None),
      IsBad = storeIsBad demoScorers,
      enodeParse = (\<lambda>a. if a = ''enr:1'' then Inr 1 else if a = ''enr:2'' then Inr 2
                        else if a = ''enr:3'' then Inr 3 else Inl (Err ''invalid node record'')),
      loadTCP = (\<lambda>n. if n = 2 then Some (Err ''missing ENR key'') else None),
      convertToMultiAddr = map (\<lambda>n. if n = 1 then ''p1'' else if n = 3 then ''down'' else ''px''),
      AddrInfosFromP2pAddrs = (\<lambda>ms. Inr (map (\<lambda>m. \<lparr>ID = m, Addrs = [m]\<rparr>) ms)),
      PeersFromStringAddrs = (\<lambda>xs. (xs, None)),
      peerIdsFromMultiAddrs = (\<lambda>ms. ms),
      WaitForClock = ClockReady 1700 (replicate 32 0),
      startDiscoveryV5 = Inr 7,
      exitOnFatal = True\<rparr>"

definition demoConfig :: Config where
  "demoConfig =
     \<lparr>RelayNodeAddr = ''relay'', NoDiscovery = False,
      Discv5BootStrapAddrs = [''enr:1'', ''enr:2'', ''enr:3''],
      StaticPeers = [''t1'']\<rparr>"

text \<open>
  The service that \<open>Start\<close> returns in the example world, from a constructed service
  that has a peer store, and its peer store.
\<close>

definition demoStore :: peer_status where
  "demoStore = \<lparr>badResponses = (\<lambda>_. 0), trustedPeers = [''t1''], added = [(''t1'', ''t1'')]\<rparr>"

definition demoStarted :: Service where
  "demoStarted =
     \<lparr>started = True, isPreGenesis = False, cfg = demoConfig, genesisTime = 1700,
      genesisValidatorsRoot = replicate 32 0, startupErr = None, dv5Listener = Some 7,
      peers = Some demoStore,
      cancelled = False, closedListeners = [], clockWaits = 1, relayDials = [''relay''],
      connectCalls = [],
      spawned = [DialPeer \<lparr>ID = ''p1'', Addrs = [''p1'']\<rparr>,
                 DialPeer \<lparr>ID = ''down'', Addrs = [''down'']\<rparr>, ListenForNewNodes,
                 DialPeer \<lparr>ID = ''t1'', Addrs = [''t1'']\<rparr>, ForkWatcher],
      periodic = [(TtfbTimeout, EnsurePeerConnections [''relay'']), (Minutes 30, Prune),
                  (RespTimeout, UpdateMetrics), (RefreshRate, RefreshPersistentSubnets),
                  (Minutes 1, LogConnectedPeers)],
      subnetRefreshes = 1, crashed = False\<rparr>"

text \<open>The same world with a discovery listener that fails to start.\<close>

definition failedDiscoveryEnv :: "nat collab" where
  "failedDiscoveryEnv = demoEnv\<lparr>startDiscoveryV5 := Inl (Err ''listen udp: address in use'')\<rparr>"

text \<open>The same world with multiaddresses that do not resolve to address infos.\<close>

definition unresolvedEnv :: "nat collab" where
  "unresolvedEnv = demoEnv\<lparr>AddrInfosFromP2pAddrs := (\<lambda>ms. Inl (Err ''invalid p2p multiaddr''))\<rparr>"

text \<open>A configuration whose second bootstrap entry does not parse.\<close>

definition malformedConfig :: Config where
  "malformedConfig = demoConfig\<lparr>Discv5BootStrapAddrs := [''enr:1'', ''garbage'', ''enr:3'']\<rparr>"

text \<open>
  A configuration with an entry without \<open>tcp\<close> port, an entry with one, and an entry
  that does not parse.
\<close>

definition mixedConfig :: Config where
  "mixedConfig = demoConfig\<lparr>Discv5BootStrapAddrs := [''enr:2'', ''enr:1'', ''garbage'']\<rparr>"

text \<open>The started service after a given peer has collected six bad responses.\<close>

definition badScoreStore :: "peer_id \<Rightarrow> peer_status" where
  "badScoreStore p = demoStore\<lparr>badResponses := (\<lambda>q. if q = p then 6 else 0)\<rparr>"

definition badScoreService :: "peer_id \<Rightarrow> Service" where
  "badScoreService p = demoStarted\<lparr>peers := Some (badScoreStore p)\<rparr>"

text \<open>The started service with the local identity among the trusted peers.\<close>

definition trustedSelfStore :: peer_status where
  "trustedSelfStore = demoStore\<lparr>trustedPeers := [''t1'', ''self'']\<rparr>"

definition trustedSelfService :: Service where
  "trustedSelfService = demoStarted\<lparr>peers := Some trustedSelfStore\<rparr>"

text \<open>A new service that knows a genesis time but only twenty bytes of root.\<close>

definition rootlessService :: Service where
  "rootlessService =
     (newService demoConfig)\<lparr>genesisTime := 1700, genesisValidatorsRoot := replicate 20 0\<rparr>"

section \<open>The lifecycle fields through Start\<close>

lemma sameLifecycle_refl: "sameLifecycle s s"
  by (simp add: sameLifecycle_def)

lemma await_sameLifecycle:
  "awaitStateInitialized env s = Returned s1 \<Longrightarrow> sameLifecycle s s1"
  by (auto simp: awaitStateInitialized_def sameLifecycle_def Let_def
           split: if_splits clock_result.splits)

lemma relayPhase_sameLifecycle: "relayPhase s = (r, s2) \<Longrightarrow> sameLifecycle s s2"
  by (auto simp: relayPhase_def sameLifecycle_def split: if_splits)

lemma connectWithAllPeers_sameLifecycle: "sameLifecycle s (connectWithAllPeers env s m)"
  by (simp add: connectWithAllPeers_def sameLifecycle_def split: sum.splits)

lemma connectToBootnodes_sameLifecycle:
  "connectToBootnodes env s = (r, s1) \<Longrightarrow> sameLifecycle s s1"
  using connectWithAllPeers_sameLifecycle [of s env]
  by (auto simp: connectToBootnodes_def sameLifecycle_refl split: sum.splits)

lemma trustedLoop_sameLifecycle:
  "trustedLoop s infos = Returned s' \<Longrightarrow> sameLifecycle s s'"
proof (induction infos arbitrary: s)
  case Nil
  then show ?case by (simp add: sameLifecycle_def)
next
  case (Cons info rest)
  from Cons.prems obtain a as st where a: "Addrs info = a # as" and st: "peers s = Some st"
    by (auto split: list.splits option.splits)
  with Cons.prems Cons.IH [of "s\<lparr>peers := Some (peersAdd st (ID info) a),
               spawned := spawned s @ [DialPeer info]\<rparr>"]
  show ?case by (simp add: sameLifecycle_def)
qed

lemma staticPeersPhase_sameLifecycle:
  "staticPeersPhase env s = Returned s' \<Longrightarrow> sameLifecycle s s'"
  by (auto simp: staticPeersPhase_def connectWithAllTrustedPeers_def Let_def sameLifecycle_def
           split: if_splits sum.splits option.splits dest!: trustedLoop_sameLifecycle)

lemma discoveryPhase_Inr:
  "discoveryPhase env s = Inr s3 \<Longrightarrow> sameLifecycle s s3"
  by (auto simp: discoveryPhase_def sameLifecycle_def
           split: if_splits sum.splits prod.splits option.splits
           dest!: connectToBootnodes_sameLifecycle)

lemma discoveryPhase_Inl:
  "discoveryPhase env s = Inl (Returned s') \<Longrightarrow>
     started s' = started s \<and> isPreGenesis s' = isPreGenesis s \<and>
     startupErr s' \<noteq> None \<and> periodic s' = periodic s"
  by (auto simp: discoveryPhase_def sameLifecycle_def
           split: if_splits sum.splits prod.splits option.splits
           dest!: connectToBootnodes_sameLifecycle)

text \<open>
  A call of \<open>Start\<close> on a service that is not started, if it returns, has cleared
  \<open>isPreGenesis\<close>; and if it has not set \<open>started\<close>, it has recorded a startup error
  and registered no periodic task.
\<close>

lemma Start_Returned:
  assumes "\<not> started s" and "Start env s = Returned s'"
  shows "\<not> isPreGenesis s' \<and>
         (\<not> started s' \<longrightarrow> startupErr s' \<noteq> None \<and> periodic s' = periodic s)"
proof -
  from assms obtain s1 where a: "awaitStateInitialized env s = Returned s1"
    by (auto simp: Start_def split: outcome.splits)
  obtain r s2 where r: "relayPhase (s1\<lparr>isPreGenesis := False\<rparr>) = (r, s2)"
    by (cases "relayPhase (s1\<lparr>isPreGenesis := False\<rparr>)")
  from a have l1: "sameLifecycle s s1" by (rule await_sameLifecycle)
  from r have l2: "sameLifecycle (s1\<lparr>isPreGenesis := False\<rparr>) s2"
    by (rule relayPhase_sameLifecycle)
  from l1 l2 assms(1) have s2: "\<not> started s2" "\<not> isPreGenesis s2" "periodic s2 = periodic s"
    by (simp_all add: sameLifecycle_def)
  show ?thesis
  proof (cases "discoveryPhase env s2")
    case (Inl out)
    with assms a r have "out = Returned s'" by (simp add: Start_def)
    with Inl discoveryPhase_Inl [of env s2 s'] s2 show ?thesis by simp
  next
    case (Inr s3)
    from Inr have l3: "sameLifecycle s2 s3" by (rule discoveryPhase_Inr)
    from assms a r Inr obtain s4 where
      s4: "staticPeersPhase env (s3\<lparr>started := True\<rparr>) = Returned s4"
      and s': "s' = (registerPeriodic r (s4\<lparr>subnetRefreshes := subnetRefreshes s4 + 1\<rparr>))
                     \<lparr>spawned := spawned (registerPeriodic r
                        (s4\<lparr>subnetRefreshes := subnetRefreshes s4 + 1\<rparr>)) @ [ForkWatcher]\<rparr>"
      by (auto simp: Start_def Let_def split: outcome.splits)
    from s4 have l4: "sameLifecycle (s3\<lparr>started := True\<rparr>) s4"
      by (rule staticPeersPhase_sameLifecycle)
    from l3 l4 s2 s' show ?thesis
      by (simp add: sameLifecycle_def registerPeriodic_def)
  qed
qed

section \<open>Running Start in the example world\<close>

lemmas start_defs = Start_def newService_def storedService_def demoConfig_def demoEnv_def
  awaitStateInitialized_def isInitialized_def IsZero_def relayPhase_def discoveryPhase_def
  connectToBootnodes_def connectWithAllPeers_def staticPeersPhase_def
  connectWithAllTrustedPeers_def SetTrustedPeers_def peersAdd_def emptyStatus_def
  registerPeriodic_def Let_def

text \<open>A construction in which no step fails yields the new service.\<close>

lemma NewHost_ok:
  "NewHost \<lparr>privKeyErr = None, metaDataErr = None, addrFilterErr = None,
            buildOptionsErr = None, libp2pNewErr = None\<rparr> c = Inr (newService c)"
  by (simp add: NewHost_def)

lemma Start_demo: "Start demoEnv (storedService demoConfig) = Returned demoStarted"
  by (simp add: start_defs demoStarted_def demoStore_def)

text \<open>
  On the service as the constructor leaves it, \<open>Start\<close> with static peers configured
  panics when it registers them in the nil peer store.
\<close>

lemma Start_nil_store: "Start demoEnv (newService demoConfig) = Panicked"
  by (simp add: start_defs)

section \<open>Health status\<close>

text \<open>
  Claim C2. \<open>Status\<close> returns no error whenever \<open>isPreGenesis\<close> is set, whatever the
  other fields are (so whether or not \<open>Start\<close> was called). And when \<open>Start\<close>, called
  on a service that was not started, returns with \<open>started\<close> set, \<open>Status\<close> returns no
  error if and only if the genesis time is not the zero time and no startup error is
  recorded.
\<close>

theorem Status_pre_genesis_and_after_Start:
  "(isPreGenesis s \<longrightarrow> Status s = None) \<and>
   (\<not> started s \<and> Start env s = Returned s' \<and> started s' \<longrightarrow>
      (Status s' = None \<longleftrightarrow> \<not> IsZero (genesisTime s') \<and> startupErr s' = None))"
proof (intro conjI impI)
  assume "isPreGenesis s"
  then show "Status s = None" by (simp add: Status_def)
next
  assume h: "\<not> started s \<and> Start env s = Returned s' \<and> started s'"
  then have "\<not> isPreGenesis s'" using Start_Returned [of s env s'] by simp
  with h show "Status s' = None \<longleftrightarrow> \<not> IsZero (genesisTime s') \<and> startupErr s' = None"
    by (auto simp: Status_def)
qed

theorem Status_pre_genesis_and_after_Start_witness:
  "isPreGenesis (storedService demoConfig) \<and> Status (storedService demoConfig) = None \<and>
   \<not> started (storedService demoConfig) \<and>
   Start demoEnv (storedService demoConfig) = Returned demoStarted \<and> started demoStarted \<and>
   \<not> IsZero (genesisTime demoStarted) \<and> startupErr demoStarted = None \<and>
   Status demoStarted = None"
  using Status_pre_genesis_and_after_Start [of "storedService demoConfig" demoEnv demoStarted]
    Start_demo
  by (simp add: newService_def storedService_def demoStarted_def IsZero_def)

section \<open>The genesis gate\<close>

text \<open>
  Claim C10. The service counts as initialized if and only if the genesis time is not
  zero and the recorded genesis validators root has exactly 32 bytes. The gate
  \<open>awaitStateInitialized\<close> returns at once, without a wait on the clock, exactly in
  that case: otherwise it enters the wait, so it either does not return or returns with
  one more wait counted. A genesis time with a root of any other length does not count
  as initialized.
\<close>

theorem isInitialized_gate:
  "(isInitialized s \<longleftrightarrow> genesisTime s \<noteq> 0 \<and> length (genesisValidatorsRoot s) = 32) \<and>
   ((\<exists>s'. awaitStateInitialized env s = Returned s' \<and> clockWaits s' = clockWaits s) \<longleftrightarrow>
      genesisTime s \<noteq> 0 \<and> length (genesisValidatorsRoot s) = 32) \<and>
   (isInitialized s \<longrightarrow> awaitStateInitialized env s = Returned s) \<and>
   (genesisTime s \<noteq> 0 \<and> length (genesisValidatorsRoot s) \<noteq> 32 \<longrightarrow> \<not> isInitialized s)"
  by (auto simp: isInitialized_def IsZero_def awaitStateInitialized_def Let_def
           split: clock_result.splits)

theorem isInitialized_gate_witness:
  "isInitialized demoStarted \<and>
   awaitStateInitialized demoEnv demoStarted = Returned demoStarted \<and>
   genesisTime rootlessService \<noteq> 0 \<and> length (genesisValidatorsRoot rootlessService) \<noteq> 32 \<and>
   \<not> isInitialized rootlessService \<and>
   awaitStateInitialized demoEnv rootlessService =
     Returned (rootlessService\<lparr>clockWaits := 1, genesisTime := 1700,
                               genesisValidatorsRoot := replicate 32 0\<rparr>)"
  using isInitialized_gate [of demoStarted demoEnv] isInitialized_gate [of rootlessService demoEnv]
  by (simp add: demoStarted_def rootlessService_def newService_def demoEnv_def
        awaitStateInitialized_def isInitialized_def IsZero_def)

section \<open>Stop\<close>

text \<open>
  Claim C9, as amended. After \<open>Stop\<close>, which returns no error, \<open>started\<close> is false and
  the discovery listener, if there was one, has been closed. A following \<open>Status\<close>
  reports the error \<open>not running\<close> when \<open>isPreGenesis\<close> is false; while
  \<open>isPreGenesis\<close> is still set it returns no error.
\<close>

theorem Stop_then_Status:
  "fst (Stop s) = None \<and> started (snd (Stop s)) = False \<and>
   (\<forall>l. dv5Listener s = Some l \<longrightarrow> l \<in> set (closedListeners (snd (Stop s)))) \<and>
   (\<not> isPreGenesis s \<longrightarrow> Status (snd (Stop s)) = Some (Err ''not running'')) \<and>
   (isPreGenesis s \<longrightarrow> Status (snd (Stop s)) = None)"
  by (auto simp: Stop_def Status_def Let_def split: option.splits)

theorem Stop_then_Status_witness:
  "\<not> isPreGenesis demoStarted \<and> dv5Listener demoStarted = Some 7 \<and>
   7 \<in> set (closedListeners (snd (Stop demoStarted))) \<and>
   started (snd (Stop demoStarted)) = False \<and>
   Status (snd (Stop demoStarted)) = Some (Err ''not running'') \<and>
   isPreGenesis (newService demoConfig) \<and> Status (snd (Stop (newService demoConfig))) = None"
  using Stop_then_Status [of demoStarted] Stop_then_Status [of "newService demoConfig"]
  by (simp add: demoStarted_def newService_def)

text \<open>
  The claim as it was stated fails on a service that is stopped before its genesis wait
  is over: \<open>Status\<close> still answers that all is well.
\<close>

theorem pre_genesis_Stop_reports_healthy:
  "started (snd (Stop (newService demoConfig))) = False \<and>
   Status (snd (Stop (newService demoConfig))) \<noteq> Some (Err ''not running'')"
  by (simp add: Stop_def Status_def newService_def Let_def)

section \<open>A single connection attempt\<close>

text \<open>
  A dial body leaves the calls of \<open>Connect\<close> as they were or adds the one for its own
  address info, which is then not the local identity.
\<close>

lemma dialBody_calls:
  "connectCalls (dialBody env s info) = connectCalls s \<or>
   (connectCalls (dialBody env s info) = connectCalls s @ [info] \<and> ID info \<noteq> hostID env)"
  by (simp add: dialBody_def connectWithPeer_def Let_def split: option.splits)

lemma runDials_calls:
  "i \<in> set (connectCalls (runDials env s infos)) \<Longrightarrow>
     i \<in> set (connectCalls s) \<or> ID i \<noteq> hostID env"
proof (induction infos arbitrary: s)
  case Nil
  then show ?case by simp
next
  case (Cons info rest)
  show ?case
  proof (cases "crashed s")
    case True
    with Cons.prems show ?thesis by simp
  next
    case False
    with Cons.prems have "i \<in> set (connectCalls (runDials env (dialBody env s info) rest))"
      by simp
    then have "i \<in> set (connectCalls (dialBody env s info)) \<or> ID i \<noteq> hostID env"
      by (rule Cons.IH)
    with dialBody_calls [of env s info] show ?thesis by auto
  qed
qed

text \<open>
  Claim C6. A connection attempt to the local identity returns no error and changes
  nothing, so it does not call the transport's \<open>Connect\<close>; this is the body of every
  dial goroutine, whichever batch started it. And however many dials run, no call of
  \<open>Connect\<close> that they add is for the local identity.
\<close>

theorem self_dial_is_noop:
  "(ID info = hostID env \<longrightarrow>
      connectWithPeer env s info = Returned (None, s) \<and> dialBody env s info = s) \<and>
   (\<forall>i \<in> set (connectCalls (runDials env s infos)).
      i \<in> set (connectCalls s) \<or> ID i \<noteq> hostID env)"
  using runDials_calls [of _ env s infos]
  by (auto simp: connectWithPeer_def dialBody_def)

theorem self_dial_is_noop_witness:
  "ID \<lparr>ID = ''self'', Addrs = [''a'']\<rparr> = hostID demoEnv \<and>
   connectWithPeer demoEnv demoStarted \<lparr>ID = ''self'', Addrs = [''a'']\<rparr> =
     Returned (None, demoStarted) \<and>
   connectCalls (runDials demoEnv demoStarted
      [\<lparr>ID = ''self'', Addrs = [''a'']\<rparr>, \<lparr>ID = ''p1'', Addrs = [''p1'']\<rparr>]) =
     [\<lparr>ID = ''p1'', Addrs = [''p1'']\<rparr>] \<and>
   (\<lparr>ID = ''p1'', Addrs = [''p1'']\<rparr> \<in> set (connectCalls demoStarted) \<or>
    ID \<lparr>ID = ''p1'', Addrs = [''p1'']\<rparr> \<noteq> hostID demoEnv)"
  using self_dial_is_noop [of "\<lparr>ID = ''self'', Addrs = [''a'']\<rparr>" demoEnv demoStarted
      "[\<lparr>ID = ''self'', Addrs = [''a'']\<rparr>, \<lparr>ID = ''p1'', Addrs = [''p1'']\<rparr>]"]
  by (simp add: demoEnv_def demoStarted_def demoStore_def dialBody_def connectWithPeer_def
        storeIsBad_def demoScorers_def Let_def)

text \<open>
  Claim C7. When the peer is neither the local identity nor reported bad by the peer
  store and the transport's \<open>Connect\<close> fails, the attempt returns the dial error,
  \<open>Connect\<close> was called once, and the store is the one after a single \<open>Increment\<close>
  for that peer: its bad-response score is one higher than before, the scores of all
  other peers being unchanged.
\<close>

theorem failed_dial_increments_score:
  assumes "ID info \<noteq> hostID env"
    and "peers s = Some st"
    and "IsBad env st (ID info) = None"
    and "hostConnect env (connectCalls s) info = Some e"
  shows "connectWithPeer env s info =
           Returned (Some e, s\<lparr>connectCalls := connectCalls s @ [info],
                               peers := Some (Increment st (ID info))\<rparr>) \<and>
         badResponses (Increment st (ID info)) (ID info) = badResponses st (ID info) + 1 \<and>
         (\<forall>q. q \<noteq> ID info \<longrightarrow> badResponses (Increment st (ID info)) q = badResponses st q)"
  using assms by (simp add: connectWithPeer_def Let_def Increment_def)

theorem failed_dial_increments_score_witness:
  "ID \<lparr>ID = ''down'', Addrs = [''down'']\<rparr> \<noteq> hostID demoEnv \<and>
   peers demoStarted = Some demoStore \<and>
   IsBad demoEnv demoStore (ID \<lparr>ID = ''down'', Addrs = [''down'']\<rparr>) = None \<and>
   hostConnect demoEnv (connectCalls demoStarted) \<lparr>ID = ''down'', Addrs = [''down'']\<rparr> =
     Some (Err ''dial failed'') \<and>
   connectWithPeer demoEnv demoStarted \<lparr>ID = ''down'', Addrs = [''down'']\<rparr> =
     Returned (Some (Err ''dial failed''),
       demoStarted\<lparr>connectCalls := [\<lparr>ID = ''down'', Addrs = [''down'']\<rparr>],
                   peers := Some (Increment demoStore ''down'')\<rparr>) \<and>
   badResponses (Increment demoStore ''down'') ''down'' = 1 \<and>
   ''p1'' \<noteq> ''down'' \<and> badResponses (Increment demoStore ''down'') ''p1'' = 0"
  using failed_dial_increments_score
    [of "\<lparr>ID = ''down'', Addrs = [''down'']\<rparr>" demoEnv demoStarted demoStore "Err ''dial failed''"]
  by (simp add: demoEnv_def demoStarted_def demoStore_def storeIsBad_def demoScorers_def)

text \<open>
  Claim C5, as amended. When the Reputation collaborator reports a peer as bad, an
  attempt to connect to it never calls the transport's \<open>Connect\<close> and leaves the
  service as it was. For a peer other than the local identity the attempt is refused
  with the error of the collaborator wrapped in \<open>refused to connect to bad peer\<close>; for
  the local identity the check for a connection to oneself comes first and the attempt
  returns no error.
\<close>

theorem bad_peer_refused:
  assumes "peers s = Some st"
    and "IsBad env st (ID info) = Some e"
  shows "dialBody env s info = s \<and>
         connectCalls (dialBody env s info) = connectCalls s \<and>
         (ID info \<noteq> hostID env \<longrightarrow>
            connectWithPeer env s info =
              Returned (Some (Wrap e ''refused to connect to bad peer''), s)) \<and>
         (ID info = hostID env \<longrightarrow> connectWithPeer env s info = Returned (None, s))"
  using assms by (simp add: connectWithPeer_def dialBody_def)

theorem bad_peer_refused_witness:
  "peers (badScoreService ''p9'') = Some (badScoreStore ''p9'') \<and>
   IsBad demoEnv (badScoreStore ''p9'') (ID \<lparr>ID = ''p9'', Addrs = [''p9'']\<rparr>) =
     Some (Err ''bad responses'') \<and>
   ID \<lparr>ID = ''p9'', Addrs = [''p9'']\<rparr> \<noteq> hostID demoEnv \<and>
   connectWithPeer demoEnv (badScoreService ''p9'') \<lparr>ID = ''p9'', Addrs = [''p9'']\<rparr> =
     Returned (Some (Wrap (Err ''bad responses'') ''refused to connect to bad peer''),
       badScoreService ''p9'') \<and>
   peers (badScoreService ''self'') = Some (badScoreStore ''self'') \<and>
   IsBad demoEnv (badScoreStore ''self'') (ID \<lparr>ID = ''self'', Addrs = [''a'']\<rparr>) =
     Some (Err ''bad responses'') \<and>
   ID \<lparr>ID = ''self'', Addrs = [''a'']\<rparr> = hostID demoEnv \<and>
   connectWithPeer demoEnv (badScoreService ''self'') \<lparr>ID = ''self'', Addrs = [''a'']\<rparr> =
     Returned (None, badScoreService ''self'')"
  using bad_peer_refused
    [of "badScoreService ''p9''" "badScoreStore ''p9''" demoEnv
        "\<lparr>ID = ''p9'', Addrs = [''p9'']\<rparr>" "Err ''bad responses''"]
    bad_peer_refused
    [of "badScoreService ''self''" "badScoreStore ''self''" demoEnv
        "\<lparr>ID = ''self'', Addrs = [''a'']\<rparr>" "Err ''bad responses''"]
  by (simp add: demoEnv_def demoStore_def badScoreService_def badScoreStore_def
        storeIsBad_def demoScorers_def)

text \<open>
  The claim as it was stated fails for the local identity: reported bad and not
  trusted, an attempt to connect to it is not refused with an error.
\<close>

theorem bad_local_identity_gets_no_error:
  "peers (badScoreService ''self'') = Some (badScoreStore ''self'') \<and>
   IsBad demoEnv (badScoreStore ''self'') ''self'' = Some (Err ''bad responses'') \<and>
   ''self'' \<notin> set (trustedPeers (badScoreStore ''self'')) \<and>
   connectWithPeer demoEnv (badScoreService ''self'') \<lparr>ID = ''self'', Addrs = [''a'']\<rparr> =
     Returned (None, badScoreService ''self'')"
  by (simp add: demoEnv_def demoStore_def badScoreService_def badScoreStore_def
        storeIsBad_def demoScorers_def connectWithPeer_def)

text \<open>
  Claim C4. The static peers are registered as trusted in the peer store that
  \<open>connectWithPeer\<close> asks, and that store's \<open>IsBad\<close> exempts trusted peers. So for a
  peer in the trust set: if it is the local identity the attempt is a no-op, the
  avoidance of a connection to oneself being checked before anything else; otherwise
  the attempt is never refused with the bad-peer error, whatever the scorers say: the
  transport's \<open>Connect\<close> is called and its answer is what the attempt returns.
\<close>

theorem trusted_peer_connect:
  assumes "IsBad env = storeIsBad scorers"
    and "peers s = Some st"
    and "ID info \<in> set (trustedPeers st)"
  shows "(ID info = hostID env \<longrightarrow> connectWithPeer env s info = Returned (None, s)) \<and>
         (ID info \<noteq> hostID env \<longrightarrow>
            (\<exists>s'. connectWithPeer env s info =
                     Returned (hostConnect env (connectCalls s) info, s') \<and>
                   connectCalls s' = connectCalls s @ [info]))"
  using assms
  by (auto simp: connectWithPeer_def storeIsBad_def Let_def split: option.splits)

theorem trusted_peer_connect_witness:
  "IsBad demoEnv = storeIsBad demoScorers \<and>
   peers (badScoreService ''t1'') = Some (badScoreStore ''t1'') \<and>
   ID \<lparr>ID = ''t1'', Addrs = [''t1'']\<rparr> \<in> set (trustedPeers (badScoreStore ''t1'')) \<and>
   demoScorers (badScoreStore ''t1'') ''t1'' = Some (Err ''bad responses'') \<and>
   ID \<lparr>ID = ''t1'', Addrs = [''t1'']\<rparr> \<noteq> hostID demoEnv \<and>
   connectWithPeer demoEnv (badScoreService ''t1'') \<lparr>ID = ''t1'', Addrs = [''t1'']\<rparr> =
     Returned (None,
       (badScoreService ''t1'')\<lparr>connectCalls := [\<lparr>ID = ''t1'', Addrs = [''t1'']\<rparr>]\<rparr>) \<and>
   peers trustedSelfService = Some trustedSelfStore \<and>
   ID \<lparr>ID = ''self'', Addrs = [''a'']\<rparr> \<in> set (trustedPeers trustedSelfStore) \<and>
   ID \<lparr>ID = ''self'', Addrs = [''a'']\<rparr> = hostID demoEnv \<and>
   connectWithPeer demoEnv trustedSelfService \<lparr>ID = ''self'', Addrs = [''a'']\<rparr> =
     Returned (None, trustedSelfService)"
  using trusted_peer_connect [of demoEnv demoScorers "badScoreService ''t1''"
      "badScoreStore ''t1''" "\<lparr>ID = ''t1'', Addrs = [''t1'']\<rparr>"]
    trusted_peer_connect [of demoEnv demoScorers trustedSelfService trustedSelfStore
      "\<lparr>ID = ''self'', Addrs = [''a'']\<rparr>"]
  by (simp add: demoEnv_def demoStarted_def demoStore_def badScoreService_def
        badScoreStore_def trustedSelfService_def trustedSelfStore_def demoScorers_def
        connectWithPeer_def storeIsBad_def Let_def)

section \<open>Bootstrap nodes\<close>

lemma bootLoop_all_parse:
  "map (enodeParse env) as = map Inr ns \<Longrightarrow>
     bootLoop env as acc = Inr (acc @ filter (\<lambda>n. loadTCP env n = None) ns)"
proof (induction as arbitrary: ns acc)
  case Nil
  then show ?case by simp
next
  case (Cons a as)
  then obtain n ns' where ns: "ns = n # ns'" and a: "enodeParse env a = Inr n"
    and rest: "map (enodeParse env) as = map Inr ns'"
    by (cases ns) auto
  show ?case
  proof (cases "loadTCP env n")
    case None
    with a ns Cons.IH [OF rest, of "acc @ [n]"] show ?thesis by simp
  next
    case (Some e)
    with a ns Cons.IH [OF rest, of acc] show ?thesis by simp
  qed
qed

lemma bootLoop_parse_error:
  "map (enodeParse env) pre = map Inr ns \<Longrightarrow> enodeParse env bad = Inl e \<Longrightarrow>
     bootLoop env (pre @ bad # post) acc = Inl e"
proof (induction pre arbitrary: ns acc)
  case Nil
  then show ?case by simp
next
  case (Cons a as)
  then obtain n ns' where ns: "ns = n # ns'" and a: "enodeParse env a = Inr n"
    and rest: "map (enodeParse env) as = map Inr ns'"
    by (cases ns) auto
  from Cons.IH [OF rest Cons.prems(2)] a show ?case
    by (simp split: option.splits)
qed

text \<open>
  Claim C1, as amended. A bootstrap entry that does not parse makes
  \<open>connectToBootnodes\<close> fail as a whole: when the entries before it parse, the call
  returns the parse error of that entry and starts no dial, neither for the entries
  before it nor for those after it.
\<close>

theorem bootnodes_parse_failure:
  assumes "Discv5BootStrapAddrs (cfg s) = pre @ bad # post"
    and "map (enodeParse env) pre = map Inr nodes"
    and "enodeParse env bad = Inl e"
  shows "connectToBootnodes env s = (Some e, s)"
  using assms bootLoop_parse_error [of env pre nodes bad e post "[]"]
  by (simp add: connectToBootnodes_def)

theorem bootnodes_parse_failure_witness:
  "Discv5BootStrapAddrs (cfg (newService malformedConfig)) =
     [''enr:1''] @ ''garbage'' # [''enr:3''] \<and>
   map (enodeParse demoEnv) [''enr:1''] = map Inr [1] \<and>
   enodeParse demoEnv ''garbage'' = Inl (Err ''invalid node record'') \<and>
   connectToBootnodes demoEnv (newService malformedConfig) =
     (Some (Err ''invalid node record''), newService malformedConfig)"
  using bootnodes_parse_failure [of "newService malformedConfig" "[''enr:1'']" "''garbage''"
      "[''enr:3'']" demoEnv "[1]" "Err ''invalid node record''"]
  by (simp add: newService_def malformedConfig_def demoConfig_def demoEnv_def)

text \<open>
  The claim as it was stated fails on three entries of which the second does not
  parse: the first and the third are valid and carry a \<open>tcp\<close> entry, yet the call
  returns the error and no dial is started.
\<close>

theorem malformed_entry_aborts_bootstrap:
  "enodeParse demoEnv ''enr:1'' = Inr 1 \<and> loadTCP demoEnv 1 = None \<and>
   enodeParse demoEnv ''enr:3'' = Inr 3 \<and> loadTCP demoEnv 3 = None \<and>
   fst (connectToBootnodes demoEnv (newService malformedConfig)) =
     Some (Err ''invalid node record'') \<and>
   spawned (snd (connectToBootnodes demoEnv (newService malformedConfig))) = []"
  by (simp add: newService_def malformedConfig_def demoConfig_def demoEnv_def
        connectToBootnodes_def)

text \<open>
  Claim C8, as amended. Provided that every configured entry parses, the loop keeps
  exactly the nodes whose record has a \<open>tcp\<close> entry, in their order, and passes over
  the others; \<open>connectToBootnodes\<close> returns no error and hands the multiaddresses of
  the nodes kept to the batch dial, which starts one dial goroutine for each address
  info resolved from them, and none when they do not resolve.
\<close>

theorem bootnodes_without_tcp_skipped:
  assumes "map (enodeParse env) (Discv5BootStrapAddrs (cfg s)) = map Inr nodes"
  shows "bootLoop env (Discv5BootStrapAddrs (cfg s)) [] =
           Inr (filter (\<lambda>n. loadTCP env n = None) nodes) \<and>
         connectToBootnodes env s =
           (None, connectWithAllPeers env s
                    (convertToMultiAddr env (filter (\<lambda>n. loadTCP env n = None) nodes))) \<and>
         (\<forall>infos. AddrInfosFromP2pAddrs env
                     (convertToMultiAddr env (filter (\<lambda>n. loadTCP env n = None) nodes)) =
                     Inr infos \<longrightarrow>
            connectToBootnodes env s = (None, s\<lparr>spawned := spawned s @ map DialPeer infos\<rparr>)) \<and>
         (\<forall>e. AddrInfosFromP2pAddrs env
                 (convertToMultiAddr env (filter (\<lambda>n. loadTCP env n = None) nodes)) = Inl e \<longrightarrow>
            connectToBootnodes env s = (None, s))"
  using assms bootLoop_all_parse [of env "Discv5BootStrapAddrs (cfg s)" nodes "[]"]
  by (simp add: connectToBootnodes_def connectWithAllPeers_def)

theorem bootnodes_without_tcp_skipped_witness:
  "map (enodeParse demoEnv) (Discv5BootStrapAddrs (cfg (storedService demoConfig))) =
     map Inr [1, 2, 3] \<and>
   loadTCP demoEnv 2 \<noteq> None \<and>
   AddrInfosFromP2pAddrs demoEnv
     (convertToMultiAddr demoEnv (filter (\<lambda>n. loadTCP demoEnv n = None) [1, 2, 3])) =
     Inr [\<lparr>ID = ''p1'', Addrs = [''p1'']\<rparr>, \<lparr>ID = ''down'', Addrs = [''down'']\<rparr>] \<and>
   spawned (snd (connectToBootnodes demoEnv (storedService demoConfig))) =
     [DialPeer \<lparr>ID = ''p1'', Addrs = [''p1'']\<rparr>, DialPeer \<lparr>ID = ''down'', Addrs = [''down'']\<rparr>] \<and>
   connectCalls (runDials demoEnv (storedService demoConfig)
     [\<lparr>ID = ''p1'', Addrs = [''p1'']\<rparr>, \<lparr>ID = ''down'', Addrs = [''down'']\<rparr>]) =
     [\<lparr>ID = ''p1'', Addrs = [''p1'']\<rparr>, \<lparr>ID = ''down'', Addrs = [''down'']\<rparr>] \<and>
   map (enodeParse unresolvedEnv) (Discv5BootStrapAddrs (cfg (storedService demoConfig))) =
     map Inr [1, 2, 3] \<and>
   AddrInfosFromP2pAddrs unresolvedEnv
     (convertToMultiAddr unresolvedEnv (filter (\<lambda>n. loadTCP unresolvedEnv n = None) [1, 2, 3])) =
     Inl (Err ''invalid p2p multiaddr'') \<and>
   connectToBootnodes unresolvedEnv (storedService demoConfig) =
     (None, storedService demoConfig)"
  using bootnodes_without_tcp_skipped [of demoEnv "storedService demoConfig" "[1, 2, 3]"]
    bootnodes_without_tcp_skipped [of unresolvedEnv "storedService demoConfig" "[1, 2, 3]"]
  by (simp add: newService_def storedService_def demoConfig_def demoEnv_def unresolvedEnv_def
        connectWithAllPeers_def dialBody_def connectWithPeer_def Let_def emptyStatus_def
        Increment_def storeIsBad_def demoScorers_def)

text \<open>
  The claim as it was stated fails when another entry does not parse: of the three
  entries the first has no \<open>tcp\<close> port, the second has one and the third is
  malformed; the call returns the parse error and the second entry is not dialed.
\<close>

theorem tcp_entry_not_dialed_beside_malformed:
  "enodeParse demoEnv ''enr:2'' = Inr 2 \<and> loadTCP demoEnv 2 \<noteq> None \<and>
   enodeParse demoEnv ''enr:1'' = Inr 1 \<and> loadTCP demoEnv 1 = None \<and>
   connectToBootnodes demoEnv (storedService mixedConfig) =
     (Some (Err ''invalid node record''), storedService mixedConfig) \<and>
   spawned (storedService mixedConfig) = []"
  by (simp add: newService_def storedService_def mixedConfig_def demoConfig_def demoEnv_def
        connectToBootnodes_def)

section \<open>A discovery listener that fails to start\<close>

text \<open>
  The failure is logged with \<open>Fatal\<close>. When that ends the process, \<open>Start\<close> does not
  return. When it does not, \<open>Start\<close> returns with the error recorded, \<open>started\<close>
  still false and no periodic task registered.
\<close>

lemma fatal_log_ends_Start:
  assumes "\<not> started s" "\<not> NoDiscovery (cfg s)" "startDiscoveryV5 env = Inl e" "exitOnFatal env"
  shows "Start env s \<noteq> Returned s'"
  using assms
  by (auto simp: Start_def awaitStateInitialized_def relayPhase_def discoveryPhase_def Let_def
           split: outcome.splits clock_result.splits if_splits)

lemma returning_log_records_startupErr:
  assumes "\<not> started s" "\<not> NoDiscovery (cfg s)" "startDiscoveryV5 env = Inl e"
    "\<not> exitOnFatal env" "Start env s = Returned s'"
  shows "startupErr s' = Some e \<and> \<not> started s' \<and> periodic s' = periodic s"
  using assms
  by (auto simp: Start_def awaitStateInitialized_def relayPhase_def discoveryPhase_def Let_def
           split: outcome.splits clock_result.splits if_splits)

lemma returning_log_demo:
  "Start (failedDiscoveryEnv\<lparr>exitOnFatal := False\<rparr>) (newService demoConfig) =
     Returned ((newService demoConfig)
       \<lparr>isPreGenesis := False, genesisTime := 1700, genesisValidatorsRoot := replicate 32 0,
        clockWaits := 1, relayDials := [''relay''],
        startupErr := Some (Err ''listen udp: address in use'')\<rparr>)"
  by (simp add: start_defs failedDiscoveryEnv_def)

text \<open>
  Claim C3. With the logger's default exit function, a discovery listener that fails
  to start ends the process inside \<open>Start\<close>: the call does not return, and the
  assignment of \<open>startupErr\<close> that follows the fatal log entry is never reached.
\<close>

theorem discovery_failure_exits_process:
  "Start failedDiscoveryEnv (newService demoConfig) = Exited"
  by (simp add: start_defs failedDiscoveryEnv_def)

end
